theory Spec2Isabelle
  imports Complex_Main "HOL-Library.AList"
begin

section \<open>Data frames\<close>

text \<open>
  The quality engine of \<^verbatim>\<open>scripts/utils/data_quality.py\<close> works on a dictionary of pandas
  data frames. A cell is a scalar of the frame. pandas knows several missing values and the
  code meets three of them: Python's \<^verbatim>\<open>None\<close> (\<open>PyNone\<close>), the float \<^verbatim>\<open>nan\<close> (\<open>NaN\<close>) and the
  missing timestamp \<^verbatim>\<open>NaT\<close>; \<^verbatim>\<open>pd.isna\<close> holds of the three, but they are different values
  where values are compared. A number of an \<^verbatim>\<open>int64\<close> or \<^verbatim>\<open>float64\<close> column is the rational it
  denotes; a timestamp of a \<^verbatim>\<open>datetime64[ns]\<close> column is its number of nanoseconds since the
  epoch. Strings are lists of code points below 256. A column carries its numpy dtype; a data
  frame is the ordered list of its named columns, all of the same length; the dictionary of
  data sets is an association list in insertion order, looked up with \<open>map_of\<close> and updated
  with \<open>AList.update\<close>, as a Python \<^verbatim>\<open>dict\<close> is. Row labels (the index) are not modelled: no
  operation below reads them.
\<close>

datatype cell = PyNone | NaN | NaT | Num rat | Str string | Time int | Bool bool

datatype dtype = Int64 | Float64 | BoolT | Datetime64 | Object

datatype error =
  KeyError | ValueError | TypeError | AttributeError | ParseError | DatabaseError

record column =
  dtype :: dtype
  cells :: "cell list"

type_synonym dataframe = "(string \<times> column) list"

type_synonym datasets = "(string \<times> dataframe) list"

fun isna :: "cell \<Rightarrow> bool" where
  "isna PyNone = True"
| "isna NaN = True"
| "isna NaT = True"
| "isna c = False"

definition notna :: "cell \<Rightarrow> bool" where
  "notna c = (\<not> isna c)"

definition is_numeric_dtype :: "dtype \<Rightarrow> bool" where
  "is_numeric_dtype d = (d = Int64 \<or> d = Float64 \<or> d = BoolT)"

definition is_datetime64_any_dtype :: "dtype \<Rightarrow> bool" where
  "is_datetime64_any_dtype d = (d = Datetime64)"

definition df_columns :: "dataframe \<Rightarrow> string list" where
  "df_columns df = map fst df"

definition row_count :: "dataframe \<Rightarrow> nat" where
  "row_count df = (case df of [] \<Rightarrow> 0 | (n, c) # rest \<Rightarrow> length (cells c))"

definition cell_at :: "column \<Rightarrow> nat \<Rightarrow> cell" where
  "cell_at c i = (if i < length (cells c) then cells c ! i else NaN)"

text \<open>\<^verbatim>\<open>df.iterrows()\<close>: the rows in order, each a mapping from column name to cell.\<close>

definition iterrows :: "dataframe \<Rightarrow> (string \<times> cell) list list" where
  "iterrows df = map (\<lambda>i. map (\<lambda>(n, c). (n, cell_at c i)) df) [0..<row_count df]"



fun py_key :: "cell \<Rightarrow> cell" where
  "py_key (Bool b) = Num (if b then 1 else 0)"
| "py_key c = c"

definition na_key :: "cell \<Rightarrow> cell" where
  "na_key c = (if isna c then NaN else py_key c)"

text \<open>
  \<^verbatim>\<open>df.duplicated()\<close> over all columns takes the single-column path on a frame of one column.
\<close>

definition row_keys :: "dataframe \<Rightarrow> cell list list" where
  "row_keys df =
     (if length df = 1 then map (map (py_key \<circ> snd)) (iterrows df)
      else map (map (na_key \<circ> snd)) (iterrows df))"




section \<open>Duplicates\<close>










section \<open>Floating point\<close>

text \<open>
  numpy computes on \<^verbatim>\<open>float64\<close>. Two things are needed of it. The conversion of an integer to
  \<^verbatim>\<open>float64\<close> is fixed by IEEE 754: the nearest number with a significand of 53 bits, ties
  to the even significand; \<open>float64\<close> gives that number, which is again an integer. The
  results of the reductions and of \<^verbatim>\<open>np.interp\<close>, on the other hand, depend on the order of
  the additions and on the instructions the library was built with, so they are parameters
  of the model: \<open>np_mean\<close>, \<open>np_median\<close> and \<open>np_skew\<close> stand for what \<^verbatim>\<open>Series.mean()\<close>,
  \<^verbatim>\<open>Series.median()\<close> and \<^verbatim>\<open>Series.skew()\<close> return on the given non-missing values (\<open>None\<close>
  for a \<^verbatim>\<open>nan\<close> skewness), \<open>np_interp pts i\<close> for the value \<^verbatim>\<open>np.interp\<close> gives at position \<open>i\<close>
  from the valid points \<open>pts\<close>, cast to \<^verbatim>\<open>int64\<close>.
\<close>

fun bit_length :: "nat \<Rightarrow> nat" where
  "bit_length n = (if n = 0 then 0 else Suc (bit_length (n div 2)))"

definition float64 :: "int \<Rightarrow> int" where
  "float64 i =
     (let a = nat \<bar>i\<bar>; k = bit_length a
      in if k \<le> 53 then i
         else (let s = k - 53;
                   q = a div 2 ^ s;
                   r = a mod 2 ^ s;
                   h = 2 ^ (s - 1);
                   n = (if r < h then q else if h < r then q + 1
                        else if even q then q else q + 1)
               in sgn i * int (n * 2 ^ s)))"

record numpy =
  np_mean :: "rat list \<Rightarrow> rat"
  np_median :: "rat list \<Rightarrow> rat"
  np_skew :: "rat list \<Rightarrow> real option"
  np_interp :: "(nat \<times> int) list \<Rightarrow> nat \<Rightarrow> int"

section \<open>Imputation\<close>

text \<open>
  The pandas reductions that \<^verbatim>\<open>impute_value\<close> calls. A reduction skips missing values; a
  non-missing cell of the wrong kind for the reduction makes pandas raise \<^verbatim>\<open>TypeError\<close>. On a
  \<^verbatim>\<open>datetime64\<close> column the reductions work on the nanosecond counts and give a timestamp,
  cut to a whole nanosecond as the cast from \<^verbatim>\<open>float64\<close> to \<^verbatim>\<open>int64\<close> does. A reduction over no
  value at all is \<^verbatim>\<open>nan\<close>, or \<^verbatim>\<open>NaT\<close> on a \<^verbatim>\<open>datetime64\<close> column.
\<close>

fun num_of :: "cell \<Rightarrow> rat option" where
  "num_of (Num r) = Some r"
| "num_of (Bool b) = Some (if b then 1 else 0)"
| "num_of c = None"

fun time_of :: "cell \<Rightarrow> rat option" where
  "time_of (Time t) = Some (of_int t)"
| "time_of c = None"

fun collect :: "(cell \<Rightarrow> 'a option) \<Rightarrow> cell list \<Rightarrow> error + 'a list" where
  "collect f [] = Inr []"
| "collect f (c # cs) =
     (if isna c then collect f cs
      else (case f c of
              None \<Rightarrow> Inl TypeError
            | Some v \<Rightarrow> (case collect f cs of Inl e \<Rightarrow> Inl e | Inr vs \<Rightarrow> Inr (v # vs))))"

definition trunc :: "rat \<Rightarrow> int" where
  "trunc x = (if 0 \<le> x then \<lfloor>x\<rfloor> else \<lceil>x\<rceil>)"

definition reduce :: "(rat list \<Rightarrow> rat) \<Rightarrow> column \<Rightarrow> error + cell" where
  "reduce stat col =
     (if is_datetime64_any_dtype (dtype col)
      then (case collect time_of (cells col) of
              Inl e \<Rightarrow> Inl e
            | Inr vs \<Rightarrow> Inr (if vs = [] then NaT else Time (trunc (stat vs))))
      else (case collect num_of (cells col) of
              Inl e \<Rightarrow> Inl e
            | Inr vs \<Rightarrow> Inr (if vs = [] then NaN else Num (stat vs))))"

definition series_mean :: "numpy \<Rightarrow> column \<Rightarrow> error + cell" where
  "series_mean np col = reduce (np_mean np) col"

definition series_median :: "numpy \<Rightarrow> column \<Rightarrow> error + cell" where
  "series_median np col = reduce (np_median np) col"

text \<open>
  \<^verbatim>\<open>Series.mode()\<close> gives the most frequent non-missing values in ascending order, and
  \<^verbatim>\<open>mode()[0]\<close> raises \<^verbatim>\<open>KeyError\<close> when there is none. Cells of one kind are ordered by their
  value (strings by code points); for a column that mixes kinds, where pandas gives up the
  sorting, the model orders the kinds as the constructors are listed.
\<close>

fun str_le :: "string \<Rightarrow> string \<Rightarrow> bool" where
  "str_le [] t = True"
| "str_le (a # s) [] = False"
| "str_le (a # s) (b # t) =
     ((of_char a :: nat) < of_char b \<or> ((of_char a :: nat) = of_char b \<and> str_le s t))"

fun kind_rank :: "cell \<Rightarrow> nat" where
  "kind_rank (Num r) = 1"
| "kind_rank (Str s) = 2"
| "kind_rank (Time t) = 3"
| "kind_rank (Bool b) = 4"
| "kind_rank c = 0"

fun cell_le :: "cell \<Rightarrow> cell \<Rightarrow> bool" where
  "cell_le (Num a) (Num b) = (a \<le> b)"
| "cell_le (Str a) (Str b) = str_le a b"
| "cell_le (Time a) (Time b) = (a \<le> b)"
| "cell_le (Bool a) (Bool b) = (a \<le> b)"
| "cell_le a b = (kind_rank a \<le> kind_rank b)"

definition modes :: "cell list \<Rightarrow> cell list" where
  "modes xs =
     (let vs = filter notna xs
      in if vs = [] then []
         else filter (\<lambda>v. count_list vs v = Max (set (map (count_list vs) vs))) (remdups vs))"

definition series_mode :: "column \<Rightarrow> error + cell" where
  "series_mode col =
     (case modes (cells col) of
        [] \<Rightarrow> Inl KeyError
      | m # ms \<Rightarrow> Inr (fold (\<lambda>v best. if cell_le v best then v else best) ms m))"

definition fillna :: "column \<Rightarrow> cell \<Rightarrow> column" where
  "fillna col v = col\<lparr>cells := map (\<lambda>c. if isna c then v else c) (cells col)\<rparr>"

text \<open>
  \<^verbatim>\<open>Series.interpolate()\<close> with its defaults (\<^verbatim>\<open>method='linear'\<close>, forward direction) on a
  \<^verbatim>\<open>datetime64\<close> column: the values count as equally spaced, and pandas assigns to every
  missing position after the first valid one what \<^verbatim>\<open>np.interp\<close> gives there from the valid
  positions and their nanosecond counts. Valid cells and the missing cells before the first
  valid one are left as they are. The column of another dtype is not followed further: the
  next statement of \<^verbatim>\<open>impute_value\<close> raises on it.
\<close>

definition valid_points :: "cell list \<Rightarrow> (nat \<times> int) list" where
  "valid_points cs =
     List.map_filter (\<lambda>(i, c). case c of Time t \<Rightarrow> Some (i, t) | _ \<Rightarrow> None)
       (zip [0..<length cs] cs)"

definition interpolate_cells :: "numpy \<Rightarrow> cell list \<Rightarrow> cell list" where
  "interpolate_cells np cs =
     (let pts = valid_points cs
      in map (\<lambda>(i, c). if isna c \<and> pts \<noteq> [] \<and> fst (hd pts) < i
                        then Time (np_interp np pts i) else c)
           (zip [0..<length cs] cs))"

definition series_interpolate :: "numpy \<Rightarrow> column \<Rightarrow> column" where
  "series_interpolate np col =
     (if is_datetime64_any_dtype (dtype col)
      then col\<lparr>cells := interpolate_cells np (cells col)\<rparr>
      else col)"

text \<open>
  \<^verbatim>\<open>Series.dt.floor('s')\<close>: the \<^verbatim>\<open>.dt\<close> accessor raises \<^verbatim>\<open>AttributeError\<close> on a column that is
  not datetime-like.
\<close>

definition floor_s :: "cell \<Rightarrow> cell" where
  "floor_s c = (case c of Time t \<Rightarrow> Time (t - t mod 1000000000) | _ \<Rightarrow> c)"

definition dt_floor_s :: "column \<Rightarrow> error + column" where
  "dt_floor_s col =
     (if is_datetime64_any_dtype (dtype col)
      then Inr (col\<lparr>cells := map floor_s (cells col)\<rparr>)
      else Inl AttributeError)"

text \<open>
  \<^verbatim>\<open>impute_value\<close>: the branch is chosen by the method name first; \<^verbatim>\<open>df[column_name]\<close> raises
  \<^verbatim>\<open>KeyError\<close> on a missing column; the unknown method raises \<^verbatim>\<open>ValueError\<close>. The assignment
  \<^verbatim>\<open>df[column_name] = ...\<close> replaces the column in place.
\<close>

definition impute_value :: "numpy \<Rightarrow> dataframe \<Rightarrow> string \<Rightarrow> string \<Rightarrow> error + dataframe" where
  "impute_value np df column_name method =
     (if method = ''mean'' then
        (case map_of df column_name of
           None \<Rightarrow> Inl KeyError
         | Some col \<Rightarrow>
             (case series_mean np col of
                Inl e \<Rightarrow> Inl e
              | Inr m \<Rightarrow> Inr (AList.update column_name (fillna col m) df)))
      else if method = ''median'' then
        (case map_of df column_name of
           None \<Rightarrow> Inl KeyError
         | Some col \<Rightarrow>
             (case series_median np col of
                Inl e \<Rightarrow> Inl e
              | Inr m \<Rightarrow> Inr (AList.update column_name (fillna col m) df)))
      else if method = ''mode'' then
        (case map_of df column_name of
           None \<Rightarrow> Inl KeyError
         | Some col \<Rightarrow>
             (case series_mode col of
                Inl e \<Rightarrow> Inl e
              | Inr m \<Rightarrow> Inr (AList.update column_name (fillna col m) df)))
      else if method = ''interpolate'' then
        (case map_of df column_name of
           None \<Rightarrow> Inl KeyError
         | Some col \<Rightarrow>
             (case dt_floor_s (series_interpolate np col) of
                Inl e \<Rightarrow> Inl e
              | Inr col2 \<Rightarrow> Inr (AList.update column_name col2 df)))
      else Inl ValueError)"

section \<open>Null handling\<close>

text \<open>
  A row of the null report of \<^verbatim>\<open>check_null_values\<close>. \<^verbatim>\<open>handle_null_values\<close> reads the data
  set name, the column name and the percentage of each row.
\<close>

record null_row =
  null_Dataset :: string
  Kolom :: string
  Tipe_Data :: dtype
  Jumlah_Null_Values :: nat
  Persentase_Null_Values :: rat
  Apakah_Tipe_Data_Date :: bool

text \<open>
  \<^verbatim>\<open>Series.skew()\<close> is \<^verbatim>\<open>nan\<close> for fewer than three values; \<^verbatim>\<open>nan != 0\<close> is true in Python.
\<close>

definition skew :: "numpy \<Rightarrow> rat list \<Rightarrow> real option" where
  "skew np vs = (if length vs < 3 then None else np_skew np vs)"

definition drop_column :: "string \<Rightarrow> dataframe \<Rightarrow> dataframe" where
  "drop_column column_name df = filter (\<lambda>(n, c). n \<noteq> column_name) df"

text \<open>
  One turn of the loop of \<^verbatim>\<open>handle_null_values\<close>. The data frame is changed in place, so the
  dictionary entry shows the change. The log calls are left out: they do not touch the data.
\<close>

definition choose_method :: "numpy \<Rightarrow> column \<Rightarrow> error + string" where
  "choose_method np col =
     (if is_numeric_dtype (dtype col)
      then (case collect num_of (cells col) of
              Inl e \<Rightarrow> Inl e
            | Inr vs \<Rightarrow> Inr (if skew np vs \<noteq> Some 0 then ''median'' else ''mean''))
      else if is_datetime64_any_dtype (dtype col) then Inr ''interpolate''
      else Inr ''mode'')"

definition handle_null_row :: "numpy \<Rightarrow> rat \<Rightarrow> null_row \<Rightarrow> datasets \<Rightarrow> error + datasets" where
  "handle_null_row np drop_null_threshold row ds =
     (let dataset_name = null_Dataset row;
          column_name = Kolom row;
          null_percentage = Persentase_Null_Values row
      in case map_of ds dataset_name of
           None \<Rightarrow> Inr ds
         | Some df \<Rightarrow>
             if null_percentage > drop_null_threshold
             then (if column_name \<in> set (df_columns df)
                   then Inr (AList.update dataset_name (drop_column column_name df) ds)
                   else Inr ds)
             else (case map_of df column_name of
                     None \<Rightarrow> Inr ds
                   | Some col \<Rightarrow>
                       (case choose_method np col of
                          Inl e \<Rightarrow> Inl e
                        | Inr method \<Rightarrow>
                            (case impute_value np df column_name method of
                               Inl e \<Rightarrow> Inl e
                             | Inr df' \<Rightarrow> Inr (AList.update dataset_name df' ds)))))"

fun handle_null_values :: "numpy \<Rightarrow> null_row list \<Rightarrow> rat \<Rightarrow> datasets \<Rightarrow> error + datasets" where
  "handle_null_values np [] drop_null_threshold ds = Inr ds"
| "handle_null_values np (row # rest) drop_null_threshold ds =
     (case handle_null_row np drop_null_threshold row ds of
        Inl e \<Rightarrow> Inl e
      | Inr ds' \<Rightarrow> handle_null_values np rest drop_null_threshold ds')"

definition default_drop_null_threshold :: rat where
  "default_drop_null_threshold = 20"

section \<open>Validation\<close>

text \<open>
  \<^verbatim>\<open>validate_data_types_and_ranges\<close>. An expected type is what numpy makes of the given type
  name (\<open>None\<close> when it is no dtype, which compares unequal to every dtype). A bound of a
  range is a Python number, an \<^verbatim>\<open>int\<close> or a \<^verbatim>\<open>float\<close> (finite: the rational it denotes). numpy
  compares a column with a bound in \<^verbatim>\<open>float64\<close> as soon as one of the two is a float, and
  converts the other side: an integer cell or an integer bound is rounded by \<open>float64\<close>. An
  integer column and an integer bound are compared as integers. A comparison with a missing
  value is false, so \<^verbatim>\<open>(df[column] >= min_val) & (df[column] <= max_val)\<close> is false at every
  missing cell.
\<close>

datatype number = PyInt int | PyFloat rat

datatype check_kind = Data_Type | Value_Range

datatype status = Pass | Fail

datatype expected = Expected_Type "dtype option" | Expected_Range number number

datatype actual = Actual_Type dtype | Out_of_range_values_exist | All_values_in_range

record validation_row =
  val_Dataset :: string
  val_Column :: string
  val_Check :: check_kind
  val_Expected :: expected
  val_Actual :: actual
  val_Status :: status

definition operands :: "dtype \<Rightarrow> rat \<Rightarrow> number \<Rightarrow> rat \<times> rat" where
  "operands d v b =
     (case b of
        PyInt i \<Rightarrow> if d = Float64 then (v, of_int (float64 i)) else (v, of_int i)
      | PyFloat x \<Rightarrow> if d = Float64 then (v, x) else (of_int (float64 \<lfloor>v\<rfloor>), x))"

definition in_range :: "dtype \<Rightarrow> number \<Rightarrow> number \<Rightarrow> cell \<Rightarrow> bool" where
  "in_range d min_val max_val c =
     (case num_of c of
        None \<Rightarrow> False
      | Some v \<Rightarrow>
          (case operands d v min_val of (x, lo) \<Rightarrow> lo \<le> x)
          \<and> (case operands d v max_val of (x, hi) \<Rightarrow> x \<le> hi))"

definition validate_column ::
  "(string \<rightharpoonup> dtype option) \<Rightarrow> (string \<rightharpoonup> number \<times> number) \<Rightarrow> string \<Rightarrow> string \<Rightarrow> column \<Rightarrow>
   validation_row list" where
  "validate_column expected_types value_ranges name column col =
     (case expected_types column of
        None \<Rightarrow> []
      | Some expected_type \<Rightarrow>
          [\<lparr>val_Dataset = name, val_Column = column, val_Check = Data_Type,
            val_Expected = Expected_Type expected_type, val_Actual = Actual_Type (dtype col),
            val_Status = (if Some (dtype col) = expected_type then Pass else Fail)\<rparr>])
     @ (case value_ranges column of
          None \<Rightarrow> []
        | Some (min_val, max_val) \<Rightarrow>
            if is_numeric_dtype (dtype col)
            then (if \<not> list_all (in_range (dtype col) min_val max_val) (cells col)
                  then [\<lparr>val_Dataset = name, val_Column = column, val_Check = Value_Range,
                         val_Expected = Expected_Range min_val max_val,
                         val_Actual = Out_of_range_values_exist, val_Status = Fail\<rparr>]
                  else [\<lparr>val_Dataset = name, val_Column = column, val_Check = Value_Range,
                         val_Expected = Expected_Range min_val max_val,
                         val_Actual = All_values_in_range, val_Status = Pass\<rparr>])
            else [])"

definition validate_data_types_and_ranges ::
  "(string \<rightharpoonup> dtype option) option \<Rightarrow> (string \<rightharpoonup> number \<times> number) option \<Rightarrow> datasets \<Rightarrow>
   validation_row list" where
  "validate_data_types_and_ranges expected_types value_ranges ds =
     (let expected_types = (case expected_types of None \<Rightarrow> Map.empty | Some m \<Rightarrow> m);
          value_ranges = (case value_ranges of None \<Rightarrow> Map.empty | Some m \<Rightarrow> m)
      in concat (map (\<lambda>(name, df).
                   concat (map (\<lambda>(column, col).
                             validate_column expected_types value_ranges name column col) df))
                 ds))"

section \<open>Example data\<close>






text \<open>
  Frames for the range check: a \<^verbatim>\<open>float64\<close> column with a missing cell, one without, and an
  \<^verbatim>\<open>int64\<close> column holding \<open>2\<^sup>5\<^sup>3 + 1\<close>, which \<^verbatim>\<open>float64\<close> cannot tell from \<open>2\<^sup>5\<^sup>3\<close>.
\<close>

definition day_frame :: dataframe where
  "day_frame = [(''day'', \<lparr>dtype = Float64, cells = [Num 15, NaN]\<rparr>)]"

definition day_full :: dataframe where
  "day_full = [(''day'', \<lparr>dtype = Float64, cells = [Num 15, Num 31]\<rparr>)]"

definition big_frame :: dataframe where
  "big_frame = [(''id'', \<lparr>dtype = Int64, cells = [Num 9007199254740993]\<rparr>)]"








text \<open>A frame with a leading missing timestamp, and rows of a null report on it.\<close>

definition dated_frame :: dataframe where
  "dated_frame =
     [(''pub_date'', \<lparr>dtype = Datetime64,
                      cells = [NaT, Time 0, Time 1000000000, Time 2000000000]\<rparr>),
      (''views'', \<lparr>dtype = Float64, cells = [Num 1, NaN, Num 3, Num 8]\<rparr>),
      (''notes'', \<lparr>dtype = Object, cells = [PyNone, PyNone, PyNone, Str ''x'']\<rparr>)]"

definition report_row :: "string \<Rightarrow> dtype \<Rightarrow> nat \<Rightarrow> rat \<Rightarrow> null_row" where
  "report_row c d n p =
     \<lparr>null_Dataset = ''bbc_df'', Kolom = c, Tipe_Data = d, Jumlah_Null_Values = n,
      Persentase_Null_Values = p, Apakah_Tipe_Data_Date = is_datetime64_any_dtype d\<rparr>"


section \<open>Properties of the duplicate handling\<close>




























lemma full_row_duplicate_rows:
  "\<exists>i<row_count df. \<exists>j<i. row_keys df ! j = row_keys df ! i \<Longrightarrow> row_count df \<noteq> 0"
  by auto






section \<open>Properties of the validation\<close>

lemma filter_concat_none:
  "(\<And>k' v'. (k', v') \<in> set xs \<Longrightarrow> filter P (g k' v') = []) \<Longrightarrow>
   filter P (concat (map (\<lambda>(a, b). g a b) xs)) = []"
  by (induction xs) auto

lemma filter_concat_single:
  assumes "distinct (map fst xs)" "map_of xs k = Some v"
    and "\<And>k' v'. k' \<noteq> k \<Longrightarrow> filter P (g k' v') = []"
  shows "filter P (concat (map (\<lambda>(a, b). g a b) xs)) = filter P (g k v)"
  using assms(1,2)
proof (induction xs)
  case Nil
  then show ?case by simp
next
  case (Cons x xs)
  obtain a b where x: "x = (a, b)" by (cases x)
  show ?case
  proof (cases "a = k")
    case True
    then have "b = v" using Cons.prems x by simp
    have "\<And>k' v'. (k', v') \<in> set xs \<Longrightarrow> k' \<noteq> k"
      using Cons.prems(1) x True by (auto simp: image_iff)
    then have "filter P (concat (map (\<lambda>(a, b). g a b) xs)) = []"
      by (intro filter_concat_none assms(3)) blast
    then show ?thesis using x True \<open>b = v\<close> by simp
  next
    case False
    then show ?thesis using Cons x assms(3) by simp
  qed
qed

lemma validate_column_keys:
  "r \<in> set (validate_column et vr name column col) \<Longrightarrow> val_Dataset r = name \<and> val_Column r = column"
  by (auto simp: validate_column_def split: option.splits if_splits)

lemma in_range_notna: "in_range d lo hi c \<Longrightarrow> notna c"
  by (cases c) (auto simp: in_range_def notna_def)

lemma in_range_int:
  "d \<noteq> Float64 \<Longrightarrow>
   in_range d (PyInt a) (PyInt b) (Num v) = (of_int a \<le> v \<and> v \<le> of_int b)"
  by (simp add: in_range_def operands_def)

lemma in_range_float:
  "in_range Float64 (PyFloat a) (PyFloat b) (Num v) = (a \<le> v \<and> v \<le> b)"
  by (simp add: in_range_def operands_def)

lemma in_range_float_column:
  "in_range Float64 (PyInt a) (PyInt b) (Num v)
     = (of_int (float64 a) \<le> v \<and> v \<le> of_int (float64 b))"
  by (simp add: in_range_def operands_def)

lemma in_range_float_bound:
  "d \<noteq> Float64 \<Longrightarrow>
   in_range d (PyFloat a) (PyFloat b) (Num v)
     = (a \<le> of_int (float64 \<lfloor>v\<rfloor>) \<and> of_int (float64 \<lfloor>v\<rfloor>) \<le> b)"
  by (simp add: in_range_def operands_def)

lemma validate_column_range:
  assumes "vr column = Some (lo, hi)" "is_numeric_dtype (dtype col)"
  shows "\<exists>r. filter (\<lambda>r. val_Dataset r = name \<and> val_Column r = column \<and> val_Check r = Value_Range)
            (validate_column et vr name column col) = [r] \<and>
          (val_Status r = Pass \<longleftrightarrow> list_all (in_range (dtype col) lo hi) (cells col))"
  using assms by (auto simp: validate_column_def split: option.splits)

lemma float64_small: "bit_length (nat \<bar>i\<bar>) \<le> 53 \<Longrightarrow> float64 i = i"
  by (simp add: float64_def Let_def)

lemma float64_example: "float64 9007199254740993 = 9007199254740992"
  by (simp add: float64_def Let_def)

text \<open>
  Claim C3, as the code has it. For a data set of the dictionary and a numeric column of it
  that \<^verbatim>\<open>value_ranges\<close> lists, the report holds exactly one range row for the pair, and its
  status is \<open>Pass\<close> if and only if every cell of the column is in range as numpy compares.
  A missing cell is never in range, so it fails the column as an out-of-range value does.
  An integer (or Boolean) column is compared with integer bounds exactly; a float column
  with float bounds exactly; and when one side is a float and the other an integer, the
  integer is first rounded to \<^verbatim>\<open>float64\<close>.
\<close>

theorem range_check_status:
  assumes "distinct (map fst ds)" and "map_of ds name = Some df"
    and "distinct (map fst df)" and "map_of df column = Some col"
    and "value_ranges column = Some (min_val, max_val)" and "is_numeric_dtype (dtype col)"
  shows "(\<exists>r. filter (\<lambda>r. val_Dataset r = name \<and> val_Column r = column \<and> val_Check r = Value_Range)
              (validate_data_types_and_ranges expected_types (Some value_ranges) ds) = [r] \<and>
             (val_Status r = Pass \<longleftrightarrow>
                (\<forall>c\<in>set (cells col). in_range (dtype col) min_val max_val c))) \<and>
         (\<forall>c. in_range (dtype col) min_val max_val c \<longrightarrow> notna c) \<and>
         (\<forall>a b v. dtype col \<noteq> Float64 \<longrightarrow>
            in_range (dtype col) (PyInt a) (PyInt b) (Num v) = (of_int a \<le> v \<and> v \<le> of_int b)) \<and>
         (\<forall>a b v. in_range Float64 (PyFloat a) (PyFloat b) (Num v) = (a \<le> v \<and> v \<le> b)) \<and>
         (\<forall>a b v. in_range Float64 (PyInt a) (PyInt b) (Num v)
            = (of_int (float64 a) \<le> v \<and> v \<le> of_int (float64 b))) \<and>
         (\<forall>a b v. dtype col \<noteq> Float64 \<longrightarrow>
            in_range (dtype col) (PyFloat a) (PyFloat b) (Num v)
              = (a \<le> of_int (float64 \<lfloor>v\<rfloor>) \<and> of_int (float64 \<lfloor>v\<rfloor>) \<le> b))"
proof -
  let ?P = "\<lambda>r. val_Dataset r = name \<and> val_Column r = column \<and> val_Check r = Value_Range"
  let ?et = "case expected_types of None \<Rightarrow> Map.empty | Some m \<Rightarrow> m"
  let ?g = "\<lambda>name df. concat (map (\<lambda>(column, col). validate_column ?et value_ranges name column col) df)"
  have out: "validate_data_types_and_ranges expected_types (Some value_ranges) ds =
             concat (map (\<lambda>(a, b). ?g a b) ds)"
    by (simp add: validate_data_types_and_ranges_def)
  have other_ds: "\<And>k' v'. k' \<noteq> name \<Longrightarrow> filter ?P (?g k' v') = []"
    by (auto simp: filter_empty_conv dest!: validate_column_keys)
  have other_col: "\<And>k' v'. k' \<noteq> column \<Longrightarrow>
      filter ?P (validate_column ?et value_ranges name k' v') = []"
    by (auto simp: filter_empty_conv dest!: validate_column_keys)
  have "filter ?P (validate_data_types_and_ranges expected_types (Some value_ranges) ds) =
        filter ?P (?g name df)"
    unfolding out by (rule filter_concat_single [OF assms(1,2) other_ds])
  also have "\<dots> = filter ?P (validate_column ?et value_ranges name column col)"
    by (rule filter_concat_single [OF assms(3,4) other_col])
  finally have first: "\<exists>r. filter ?P
              (validate_data_types_and_ranges expected_types (Some value_ranges) ds) = [r] \<and>
             (val_Status r = Pass \<longleftrightarrow>
                (\<forall>c\<in>set (cells col). in_range (dtype col) min_val max_val c))"
    using validate_column_range [of value_ranges column min_val max_val col name ?et] assms(5,6)
    by (simp add: list_all_iff)
  show ?thesis
  proof (intro conjI allI impI)
    show "\<exists>r. filter ?P
              (validate_data_types_and_ranges expected_types (Some value_ranges) ds) = [r] \<and>
             (val_Status r = Pass \<longleftrightarrow>
                (\<forall>c\<in>set (cells col). in_range (dtype col) min_val max_val c))"
      by (rule first)
  next
    fix c assume "in_range (dtype col) min_val max_val c"
    then show "notna c" by (rule in_range_notna)
  next
    fix a b v assume "dtype col \<noteq> Float64"
    then show "in_range (dtype col) (PyInt a) (PyInt b) (Num v) = (of_int a \<le> v \<and> v \<le> of_int b)"
      by (rule in_range_int)
  next
    fix a b v
    show "in_range Float64 (PyFloat a) (PyFloat b) (Num v) = (a \<le> v \<and> v \<le> b)"
      by (rule in_range_float)
  next
    fix a b v
    show "in_range Float64 (PyInt a) (PyInt b) (Num v)
            = (of_int (float64 a) \<le> v \<and> v \<le> of_int (float64 b))"
      by (rule in_range_float_column)
  next
    fix a b v assume "dtype col \<noteq> Float64"
    then show "in_range (dtype col) (PyFloat a) (PyFloat b) (Num v)
              = (a \<le> of_int (float64 \<lfloor>v\<rfloor>) \<and> of_int (float64 \<lfloor>v\<rfloor>) \<le> b)"
      by (rule in_range_float_bound)
  qed
qed

text \<open>
  The claim as stated fails on a \<^verbatim>\<open>float64\<close> column holding 15 and a missing value, checked
  against the range 1 to 31: its only non-missing value is in range, and the status is \<open>Fail\<close>.
\<close>

theorem range_check_fails_on_null:
  "validate_data_types_and_ranges None (Some (map_of [(''day'', (PyInt 1, PyInt 31))]))
     [(''bbc_df'', day_frame)] =
     [\<lparr>val_Dataset = ''bbc_df'', val_Column = ''day'', val_Check = Value_Range,
       val_Expected = Expected_Range (PyInt 1) (PyInt 31),
       val_Actual = Out_of_range_values_exist, val_Status = Fail\<rparr>] \<and>
   map_option cells (map_of day_frame ''day'') = Some [Num 15, NaN] \<and>
   list_all (\<lambda>c. isna c \<or> in_range Float64 (PyInt 1) (PyInt 31) c) [Num 15, NaN]"
  by (simp add: validate_data_types_and_ranges_def validate_column_def day_frame_def
      in_range_def operands_def float64_def Let_def is_numeric_dtype_def)

theorem range_check_status_witness:
  "(\<exists>r. filter (\<lambda>r. val_Dataset r = ''bbc_df'' \<and> val_Column r = ''day'' \<and> val_Check r = Value_Range)
          (validate_data_types_and_ranges None (Some (map_of [(''day'', (PyInt 1, PyInt 31))]))
             [(''bbc_df'', day_full)]) = [r] \<and>
        val_Status r = Pass) \<and>
   (\<exists>r. filter (\<lambda>r. val_Dataset r = ''bbc_df'' \<and> val_Column r = ''id'' \<and> val_Check r = Value_Range)
          (validate_data_types_and_ranges None
             (Some (map_of [(''id'', (PyFloat 0, PyFloat 9007199254740992))]))
             [(''bbc_df'', big_frame)]) = [r] \<and>
        val_Status r = Pass)"
proof -
  have a: "distinct (map fst [(''bbc_df'', day_full)])" by simp
  have b: "map_of [(''bbc_df'', day_full)] ''bbc_df'' = Some day_full" by simp
  have c: "distinct (map fst day_full)" by (simp add: day_full_def)
  have d: "map_of day_full ''day'' = Some \<lparr>dtype = Float64, cells = [Num 15, Num 31]\<rparr>"
    by (simp add: day_full_def)
  have e: "map_of [(''day'', (PyInt 1, PyInt 31))] ''day'' = Some (PyInt 1, PyInt 31)" by simp
  have f: "is_numeric_dtype (dtype \<lparr>dtype = Float64, cells = [Num 15, Num 31]\<rparr>)"
    by (simp add: is_numeric_dtype_def)
  have s: "float64 1 = 1" "float64 31 = 31" by (simp_all add: float64_def Let_def)
  have a': "distinct (map fst [(''bbc_df'', big_frame)])" by simp
  have b': "map_of [(''bbc_df'', big_frame)] ''bbc_df'' = Some big_frame" by simp
  have c': "distinct (map fst big_frame)" by (simp add: big_frame_def)
  have d': "map_of big_frame ''id'' = Some \<lparr>dtype = Int64, cells = [Num 9007199254740993]\<rparr>"
    by (simp add: big_frame_def)
  have e': "map_of [(''id'', (PyFloat 0, PyFloat 9007199254740992))] ''id''
              = Some (PyFloat 0, PyFloat 9007199254740992)" by simp
  have f': "is_numeric_dtype (dtype \<lparr>dtype = Int64, cells = [Num 9007199254740993]\<rparr>)"
    by (simp add: is_numeric_dtype_def)
  have g': "in_range Int64 (PyFloat 0) (PyFloat 9007199254740992) (Num 9007199254740993)"
    by (simp add: in_range_def operands_def float64_example)
  from range_check_status [where value_ranges = "map_of [(''day'', (PyInt 1, PyInt 31))]"
      and column = "''day''" and expected_types = None, OF a b c d e f]
  have first: "\<exists>r. filter (\<lambda>r. val_Dataset r = ''bbc_df'' \<and> val_Column r = ''day'' \<and> val_Check r = Value_Range)
          (validate_data_types_and_ranges None (Some (map_of [(''day'', (PyInt 1, PyInt 31))]))
             [(''bbc_df'', day_full)]) = [r] \<and> val_Status r = Pass"
    by (simp add: in_range_float_column s)
  from range_check_status [where value_ranges = "map_of [(''id'', (PyFloat 0, PyFloat 9007199254740992))]"
      and column = "''id''" and expected_types = None, OF a' b' c' d' e' f']
  have second: "\<exists>r. filter (\<lambda>r. val_Dataset r = ''bbc_df'' \<and> val_Column r = ''id'' \<and> val_Check r = Value_Range)
          (validate_data_types_and_ranges None
             (Some (map_of [(''id'', (PyFloat 0, PyFloat 9007199254740992))]))
             [(''bbc_df'', big_frame)]) = [r] \<and> val_Status r = Pass"
    using g' by simp
  from first second show ?thesis by simp
qed

section \<open>Properties of the imputation\<close>








lemma time_of_isna: "isna x \<longrightarrow> time_of x = None"
  by (cases x) auto


























section \<open>Properties of the null handling\<close>










text \<open>
  Claim C4 fails in the code. The row of the report asks for the timestamp column
  \<^verbatim>\<open>pub_date\<close>, whose first cell is missing and whose percentage of missing cells, 25, does
  not exceed the threshold 25. \<^verbatim>\<open>handle_null_values\<close> imputes it by interpolation, which
  fills forward only: the leading missing cell is still there afterwards, whatever the
  arithmetic of the library.
\<close>

theorem handle_null_values_leaves_leading_null:
  "\<forall>np. handle_null_values np [report_row ''pub_date'' Datetime64 1 25] 25
          [(''bbc_df'', dated_frame)] =
        Inr [(''bbc_df'',
              [(''pub_date'', \<lparr>dtype = Datetime64,
                               cells = [NaT, Time 0, Time 1000000000, Time 2000000000]\<rparr>),
               (''views'', \<lparr>dtype = Float64, cells = [Num 1, NaN, Num 3, Num 8]\<rparr>),
               (''notes'', \<lparr>dtype = Object, cells = [PyNone, PyNone, PyNone, Str ''x'']\<rparr>)])]"
  by (simp add: report_row_def dated_frame_def handle_null_row_def choose_method_def
      is_numeric_dtype_def is_datetime64_any_dtype_def impute_value_def series_interpolate_def
      dt_floor_s_def interpolate_cells_def valid_points_def List.map_filter_def floor_s_def
      upt_rec Let_def)

end
